theory Spec2Isabelle
  imports Main "HOL-Library.Sublist"
begin

section \<open>Python strings, exceptions and effects\<close>

text \<open>
  A Python \<open>str\<close> is a sequence of Unicode code points, so it is modelled as a list of
  natural numbers. \<open>ascii\<close> embeds an ASCII literal; the few non-ASCII characters of
  the source's literals are written as their code points.
\<close>

type_synonym pystr = "nat list"

definition ascii :: "string \<Rightarrow> pystr" where
  "ascii s = map of_char s"

text \<open>\<open>sep.join(xs)\<close>.\<close>

fun str_join :: "pystr \<Rightarrow> pystr list \<Rightarrow> pystr" where
  "str_join sep [] = []"
| "str_join sep [x] = x"
| "str_join sep (x # y # ys) = x @ sep @ str_join sep (y # ys)"

text \<open>
  What a \<open>raise\<close> carries. \<open>exc\<close> is the class \<open>Exception\<close>: its constructors are the
  subclasses the code raises or singles out, each with its message (\<open>str(e)\<close>), and
  \<open>OtherException cls msg\<close> is an instance of any other subclass. \<open>UnicodeEncodeError\<close>
  derives from \<open>ValueError\<close> and \<open>RecursionError\<close> from \<open>RuntimeError\<close>; no clause of
  the code singles out either parent. \<open>BaseException cls\<close>
  is an exception that does not derive from \<open>Exception\<close> (\<open>KeyboardInterrupt\<close>,
  \<open>SystemExit\<close>): a clause \<open>except Exception\<close> does not catch it.
\<close>

datatype exc =
    TypeError pystr
  | ValueError pystr
  | RuntimeError pystr
  | ConnectionError pystr
  | AttributeError pystr
  | UnicodeEncodeError pystr
  | RecursionError pystr
  | OtherException pystr pystr

datatype raised = Exception exc | BaseException pystr

fun exc_str :: "exc \<Rightarrow> pystr" where
  "exc_str (TypeError m) = m"
| "exc_str (ValueError m) = m"
| "exc_str (RuntimeError m) = m"
| "exc_str (ConnectionError m) = m"
| "exc_str (AttributeError m) = m"
| "exc_str (UnicodeEncodeError m) = m"
| "exc_str (RecursionError m) = m"
| "exc_str (OtherException cls m) = m"

section \<open>Python values\<close>

text \<open>
  The values the two modules handle: \<open>None\<close>, booleans, integers, strings, lists and
  dictionaries (association lists, in insertion order). \<open>PObj oid cls s\<close> is an object of
  any other class, such as a \<open>datetime\<close>: \<open>oid\<close> tells it from every other object,
  \<open>cls\<close> is its class name and \<open>s\<close> is \<open>str\<close> of it; it is truthy, hashable and equal
  to itself alone, as objects are by default. Lists and dictionaries
  are mutable objects and may contain themselves: \<open>PCycle\<close>, inside a container,
  stands for a reference back to a container that encloses it; only \<open>json.dumps\<close>
  looks for one, and what the aggregator takes out of a container is taken to hold
  none. Floats and tuples are not modelled.
\<close>

datatype pyval =
    PNone
  | PBool bool
  | PInt int
  | PStr pystr
  | PList "pyval list"
  | PDict "(pyval \<times> pyval) list"
  | PObj nat pystr pystr
  | PCycle

text \<open>\<open>bool(v)\<close>. An enclosing container is not empty.\<close>

fun py_truthy :: "pyval \<Rightarrow> bool" where
  "py_truthy PNone = False"
| "py_truthy (PBool b) = b"
| "py_truthy (PInt i) = (i \<noteq> 0)"
| "py_truthy (PStr s) = (s \<noteq> [])"
| "py_truthy (PList xs) = (xs \<noteq> [])"
| "py_truthy (PDict kvs) = (kvs \<noteq> [])"
| "py_truthy (PObj oid cls s) = True"
| "py_truthy PCycle = True"

text \<open>\<open>all(xs)\<close>.\<close>

definition py_all :: "pyval list \<Rightarrow> bool" where
  "py_all xs = list_all py_truthy xs"

text \<open>A value of \<open>os.getenv\<close>: a string, or \<open>None\<close> when the variable is unset.\<close>

fun getenv_val :: "pystr option \<Rightarrow> pyval" where
  "getenv_val None = PNone"
| "getenv_val (Some s) = PStr s"

section \<open>The Python built-ins that helpers.py calls\<close>

text \<open>
  What the interpreter brings to a call. \<open>int_max_str_digits\<close> is
  \<open>sys.get_int_max_str_digits()\<close>, 4300 by default: turning an integer of more decimal
  digits into text raises \<open>ValueError\<close>; 0 is no limit, as in an interpreter that has
  none. \<open>max_nesting\<close> is how many levels below the outermost value the frames of the
  JSON encoder can go before the recursion limit is reached, given the stack in use;
  \<open>recursion_message\<close> is the message of the \<open>RecursionError\<close> raised then.
  \<open>repr_raises\<close> tells what \<open>str\<close> of a list or a dictionary, which is its \<open>repr\<close>,
  raises, if anything: a \<open>ValueError\<close> for an integer beyond the digit limit inside
  it, a \<open>RecursionError\<close> for nesting too deep. The text of a \<open>repr\<close> is not modelled.
\<close>

record interpreter =
  int_max_str_digits :: nat
  max_nesting :: nat
  recursion_message :: pystr
  repr_raises :: "pyval \<Rightarrow> exc option"

text \<open>\<open>type(v).__name__\<close>. A back-reference is never a value on its own.\<close>

fun py_type_name :: "pyval \<Rightarrow> pystr" where
  "py_type_name PNone = ascii ''NoneType''"
| "py_type_name (PBool b) = ascii ''bool''"
| "py_type_name (PInt i) = ascii ''int''"
| "py_type_name (PStr s) = ascii ''str''"
| "py_type_name (PList xs) = ascii ''list''"
| "py_type_name (PDict kvs) = ascii ''dict''"
| "py_type_name (PObj oid cls s) = cls"

text \<open>\<open>isinstance(v, list)\<close> and \<open>isinstance(v, dict)\<close>.\<close>

fun isinstance_list :: "pyval \<Rightarrow> bool" where
  "isinstance_list (PList xs) = True"
| "isinstance_list v = False"

fun isinstance_dict :: "pyval \<Rightarrow> bool" where
  "isinstance_dict (PDict kvs) = True"
| "isinstance_dict v = False"

text \<open>
  The decimal digits of a natural number, and \<open>int.__repr__\<close>, which \<open>str\<close>, an
  f-string and the JSON encoder all use for an integer: it raises when the digits,
  the sign apart, are more than the limit.
\<close>

fun nat_digits :: "nat \<Rightarrow> pystr" where
  "nat_digits n = (if n < 10 then [48 + n] else nat_digits (n div 10) @ [48 + n mod 10])"

declare nat_digits.simps [simp del]

definition int_repr :: "interpreter \<Rightarrow> int \<Rightarrow> exc + pystr" where
  "int_repr py i =
    (let digits = nat_digits (nat \<bar>i\<bar>) in
     if int_max_str_digits py \<noteq> 0 \<and> int_max_str_digits py < length digits
     then Inl (ValueError (ascii ''Exceeds the limit ('' @ nat_digits (int_max_str_digits py)
       @ ascii '' digits) for integer string conversion; use sys.set_int_max_str_digits() to increase the limit''))
     else Inr (if i < 0 then 45 # digits else digits))"

text \<open>
  \<open>str(v)\<close>, which is also what an f-string puts for \<open>{v}\<close>, for a value that is
  neither a list nor a dictionary.
\<close>

fun py_str :: "interpreter \<Rightarrow> pyval \<Rightarrow> exc + pystr" where
  "py_str py PNone = Inr (ascii ''None'')"
| "py_str py (PBool b) = Inr (if b then ascii ''True'' else ascii ''False'')"
| "py_str py (PInt i) = int_repr py i"
| "py_str py (PStr s) = Inr s"
| "py_str py (PObj oid cls s) = Inr s"

text \<open>
  \<open>json.encoder.py_encode_basestring_ascii\<close>: the characters from space to tilde stand
  for themselves, but for the backslash and the double quote; the others are escaped,
  a code point beyond U+FFFF as a surrogate pair.
\<close>

definition hex_digit :: "nat \<Rightarrow> nat" where
  "hex_digit d = (if d < 10 then 48 + d else 87 + d)"

definition u_escape :: "nat \<Rightarrow> pystr" where
  "u_escape n =
    [92, 117, hex_digit (n div 4096 mod 16), hex_digit (n div 256 mod 16),
     hex_digit (n div 16 mod 16), hex_digit (n mod 16)]"

definition escape_char :: "nat \<Rightarrow> pystr" where
  "escape_char c =
    (if c = 92 then [92, 92]
     else if c = 34 then [92, 34]
     else if c = 8 then [92, 98]
     else if c = 12 then [92, 102]
     else if c = 10 then [92, 110]
     else if c = 13 then [92, 114]
     else if c = 9 then [92, 116]
     else if 32 \<le> c \<and> c \<le> 126 then [c]
     else if c < 65536 then u_escape c
     else u_escape (55296 + (c - 65536) div 1024 mod 1024)
        @ u_escape (56320 + (c - 65536) mod 1024))"

definition py_encode_basestring_ascii :: "pystr \<Rightarrow> pystr" where
  "py_encode_basestring_ascii s = [34] @ concat (map escape_char s) @ [34]"

text \<open>
  \<open>json.dumps(obj, indent=ind, default=str)\<close> when \<open>dflt\<close> holds, and
  \<open>json.dumps(obj, indent=ind)\<close> otherwise; \<open>None\<close> for \<open>ind\<close> is the compact form. The
  encoder walks the value from left to right and raises at the first failure: a
  \<open>TypeError\<close> for a dictionary key that is not a string, a number, a boolean or
  \<open>None\<close>, or for an object of another class when there is no \<open>default\<close>; a
  \<open>ValueError\<close> for a container met again below itself, and for an integer beyond the
  digit limit; a \<open>RecursionError\<close> where it has no frame left. Each list and each
  dictionary, empty or not, is encoded in a frame of its own, one level below the
  container that holds it, and an object of another class in two frames, but for the
  outermost value, whose first frame is the encoder's own.
\<close>

definition newline_indent :: "nat option \<Rightarrow> nat \<Rightarrow> pystr" where
  "newline_indent ind lvl = (case ind of None \<Rightarrow> [] | Some k \<Rightarrow> 10 # replicate (k * lvl) 32)"

definition item_separator :: "nat option \<Rightarrow> pystr" where
  "item_separator ind = (case ind of None \<Rightarrow> ascii '', '' | Some k \<Rightarrow> ascii '','')"

fun json_key :: "interpreter \<Rightarrow> pyval \<Rightarrow> exc + pystr" where
  "json_key py (PStr s) = Inr s"
| "json_key py (PBool b) = Inr (if b then ascii ''true'' else ascii ''false'')"
| "json_key py PNone = Inr (ascii ''null'')"
| "json_key py (PInt i) = int_repr py i"
| "json_key py v =
    Inl (TypeError (ascii ''keys must be str, int, float, bool or None, not '' @ py_type_name v))"

fun json_encode :: "interpreter \<Rightarrow> bool \<Rightarrow> nat option \<Rightarrow> nat \<Rightarrow> pyval \<Rightarrow> exc + pystr"
  and json_encode_list ::
    "interpreter \<Rightarrow> bool \<Rightarrow> nat option \<Rightarrow> nat \<Rightarrow> pyval list \<Rightarrow> exc + pystr list"
  and json_encode_items ::
    "interpreter \<Rightarrow> bool \<Rightarrow> nat option \<Rightarrow> nat \<Rightarrow> (pyval \<times> pyval) list \<Rightarrow> exc + pystr list"
where
  "json_encode py dflt ind lvl PNone = Inr (ascii ''null'')"
| "json_encode py dflt ind lvl (PBool b) = Inr (if b then ascii ''true'' else ascii ''false'')"
| "json_encode py dflt ind lvl (PInt i) = int_repr py i"
| "json_encode py dflt ind lvl (PStr s) = Inr (py_encode_basestring_ascii s)"
| "json_encode py dflt ind lvl (PList xs) =
    (if max_nesting py < lvl then Inl (RecursionError (recursion_message py))
     else if xs = [] then Inr (ascii ''[]'')
     else case json_encode_list py dflt ind (Suc lvl) xs of
       Inl e \<Rightarrow> Inl e
     | Inr chunks \<Rightarrow>
         Inr (ascii ''['' @ newline_indent ind (Suc lvl)
           @ str_join (item_separator ind @ newline_indent ind (Suc lvl)) chunks
           @ newline_indent ind lvl @ ascii '']''))"
| "json_encode py dflt ind lvl (PDict kvs) =
    (if max_nesting py < lvl then Inl (RecursionError (recursion_message py))
     else if kvs = [] then Inr (ascii ''{}'')
     else case json_encode_items py dflt ind (Suc lvl) kvs of
       Inl e \<Rightarrow> Inl e
     | Inr chunks \<Rightarrow>
         Inr (ascii ''{'' @ newline_indent ind (Suc lvl)
           @ str_join (item_separator ind @ newline_indent ind (Suc lvl)) chunks
           @ newline_indent ind lvl @ ascii ''}''))"
| "json_encode py dflt ind lvl (PObj oid cls s) =
    (if max_nesting py < lvl then Inl (RecursionError (recursion_message py))
     else if \<not> dflt
     then Inl (TypeError (ascii ''Object of type '' @ cls @ ascii '' is not JSON serializable''))
     else if 0 < lvl \<and> max_nesting py \<le> lvl then Inl (RecursionError (recursion_message py))
     else Inr (py_encode_basestring_ascii s))"
| "json_encode py dflt ind lvl PCycle =
    (if max_nesting py < lvl then Inl (RecursionError (recursion_message py))
     else Inl (ValueError (ascii ''Circular reference detected'')))"
| "json_encode_list py dflt ind lvl [] = Inr []"
| "json_encode_list py dflt ind lvl (x # xs) =
    (case json_encode py dflt ind lvl x of
       Inl e \<Rightarrow> Inl e
     | Inr chunk \<Rightarrow>
         (case json_encode_list py dflt ind lvl xs of
            Inl e \<Rightarrow> Inl e
          | Inr chunks \<Rightarrow> Inr (chunk # chunks)))"
| "json_encode_items py dflt ind lvl [] = Inr []"
| "json_encode_items py dflt ind lvl (kv # kvs) =
    (case json_key py (fst kv) of
       Inl e \<Rightarrow> Inl e
     | Inr k \<Rightarrow>
         (case json_encode py dflt ind lvl (snd kv) of
            Inl e \<Rightarrow> Inl e
          | Inr chunk \<Rightarrow>
              (case json_encode_items py dflt ind lvl kvs of
                 Inl e \<Rightarrow> Inl e
               | Inr chunks \<Rightarrow>
                   Inr ((py_encode_basestring_ascii k @ ascii '': '' @ chunk) # chunks))))"

definition json_dumps :: "interpreter \<Rightarrow> bool \<Rightarrow> nat option \<Rightarrow> pyval \<Rightarrow> exc + pystr" where
  "json_dumps py dflt ind obj = json_encode py dflt ind 0 obj"

text \<open>An exception of a built-in, raised in the caller.\<close>

fun raising :: "exc + 'a \<Rightarrow> raised + 'a" where
  "raising (Inl e) = Inl (Exception e)"
| "raising (Inr x) = Inr x"

text \<open>
  \<open>obj.get(key, default)\<close>: the method of a dictionary; a value of another class has
  no such attribute.
\<close>

fun dict_get :: "pyval \<Rightarrow> pyval \<Rightarrow> pyval \<Rightarrow> exc + pyval" where
  "dict_get (PDict kvs) key dflt = Inr (case map_of kvs key of None \<Rightarrow> dflt | Some v \<Rightarrow> v)"
| "dict_get obj key dflt =
    Inl (AttributeError ([39] @ py_type_name obj @ [39] @ ascii '' object has no attribute ''
      @ [39] @ ascii ''get'' @ [39]))"

text \<open>The elements a \<open>for\<close> clause draws from a value.\<close>

fun py_iter :: "pyval \<Rightarrow> exc + pyval list" where
  "py_iter (PList xs) = Inr xs"
| "py_iter (PDict kvs) = Inr (map fst kvs)"
| "py_iter (PStr s) = Inr (map (\<lambda>c. PStr [c]) s)"
| "py_iter v = Inl (TypeError ([39] @ py_type_name v @ [39] @ ascii '' object is not iterable''))"

text \<open>
  A Python set, as the list of its elements in insertion order. Elements are compared
  by \<open>==\<close>, under which \<open>True\<close> is \<open>1\<close> and \<open>False\<close> is \<open>0\<close>: \<open>py_key\<close> gives equal
  values the same key. Two objects of another class are equal when they are the same
  object, so objects that only look alike are both kept. Lists and dictionaries cannot
  be hashed.
\<close>

fun py_key :: "pyval \<Rightarrow> pyval" where
  "py_key (PBool b) = PInt (if b then 1 else 0)"
| "py_key v = v"

fun py_hashable :: "pyval \<Rightarrow> bool" where
  "py_hashable (PList xs) = False"
| "py_hashable (PDict kvs) = False"
| "py_hashable PCycle = False"
| "py_hashable v = True"

definition set_add :: "pyval list \<Rightarrow> pyval \<Rightarrow> exc + pyval list" where
  "set_add s v =
    (if \<not> py_hashable v
     then Inl (TypeError (ascii ''unhashable type: '' @ [39] @ py_type_name v @ [39]))
     else if py_key v \<in> set (map py_key s) then Inr s
     else Inr (s @ [v]))"

section \<open>The remote client, the library and the effects\<close>

text \<open>
  A \<open>pathlib\<close> path, as its components; \<open>p / name\<close> appends one.
\<close>

type_synonym path = "pystr list"

text \<open>
  The configuration of module \<open>config\<close>, which client.py imports: five values read
  from the environment and the directory of the \<open>.env\<close> file.
\<close>

record config =
  CLIENT_ID :: "pystr option"
  CLIENT_SECRET :: "pystr option"
  REDIRECT_URI :: "pystr option"
  USERNAME :: "pystr option"
  PASSWORD :: "pystr option"
  dotenv_dir_path :: path

text \<open>An authenticated negotiator, holding its access token.\<close>

datatype oauth2 = OAuth2 pystr

text \<open>
  A \<open>TickTickClient\<close> of the ticktick-py library, by what helpers.py uses of it:
  evaluating \<open>client.state\<close> and \<open>client.inbox_id\<close> gives a value or raises, and so does
  the remote call \<open>client.task.get_from_project(project_id)\<close>.
\<close>

record ticktick_client =
  state :: "raised + pyval"
  inbox_id :: "raised + pyval"
  task_get_from_project :: "pyval \<Rightarrow> raised + pyval"

text \<open>
  The two constructors of the library, which do the network and file I/O:
  \<open>MCPFriendlyOAuth2(client_id=, client_secret=, redirect_uri=, cache_path=)\<close> reads the
  token cache and negotiates a token, \<open>TickTickClient(username, password, oauth)\<close> logs
  in. Each returns its object or raises.
\<close>

record library =
  MCPFriendlyOAuth2 :: "pyval \<Rightarrow> pyval \<Rightarrow> pyval \<Rightarrow> path \<Rightarrow> raised + oauth2"
  TickTickClient :: "pyval \<Rightarrow> pyval \<Rightarrow> oauth2 \<Rightarrow> raised + ticktick_client"

text \<open>
  The effects, in the order they happen. A log record is the text of the source's
  literal, where each \<open>{}\<close> stands for one interpolated expression of an f-string,
  with the values interpolated, in order; logging does not fail. A printed line is the
  text written.
\<close>

datatype level = DEBUG | INFO | WARNING | ERROR

datatype farg =
    FVal pyval
  | FExc exc
  | FType pyval
  | FPath path
  | FClient "ticktick_client option"

datatype event =
    Logging level pystr "farg list"
  | Print pystr
  | Input pystr
  | OAuth2_call pyval pyval pyval path
  | TickTickClient_call pyval pyval oauth2
  | Get_from_project pyval

text \<open>The events that are network or file I/O: the calls into the library.\<close>

fun is_io :: "event \<Rightarrow> bool" where
  "is_io (OAuth2_call a b c d) = True"
| "is_io (TickTickClient_call a b c) = True"
| "is_io (Get_from_project p) = True"
| "is_io (Input p) = True"
| "is_io (Logging l m as) = False"
| "is_io (Print m) = False"

text \<open>
  Standard output, by what \<open>print(text)\<close> does on it: it writes the line, or it raises,
  as it does with \<open>UnicodeEncodeError\<close> when the encoding of the stream has no code for
  a character of the text.
\<close>

type_synonym stdout = "pystr \<Rightarrow> exc option"

section \<open>client.py: the OAuth2 negotiator's user-input operation\<close>

text \<open>
  Standard input as \<open>MCPFriendlyOAuth2._get_user_input\<close> sees it: whether it is a
  terminal (\<open>sys.stdin.isatty()\<close>), and what the blocking call \<open>input(prompt)\<close> would
  give: the line read, or the exception it raises.
\<close>

record stdin =
  isatty :: bool
  input_result :: "pystr \<Rightarrow> raised + pystr"

text \<open>The lines of \<open>error_msg\<close>, lines 25 to 47 of client.py. The wrench sign is U+1F527.\<close>

definition error_msg :: "pystr list" where
  "error_msg =
    [ascii '''',
     replicate 80 (of_char (CHR ''='')),
     [0x1F527] @ ascii '' TICKTICK AUTHENTICATION REQUIRED'',
     replicate 80 (of_char (CHR ''='')),
     ascii ''The TickTick MCP server needs to authenticate with TickTick'' @ [0x27]
       @ ascii ''s API first.'',
     ascii ''Since you'' @ [0x27]
       @ ascii ''re running this as an MCP server, interactive authentication cannot'',
     ascii ''work because stdin/stdout are used for MCP protocol communication.'',
     ascii '''',
     ascii ''SOLUTION: Run the setup command first in a separate terminal:'',
     ascii '''',
     ascii ''  ticktick-mcp-setup'',
     ascii '''',
     ascii ''This will handle the OAuth2 flow interactively and cache the authentication'',
     ascii ''token. After that, the MCP server will work normally.'',
     ascii '''',
     ascii ''If you don'' @ [0x27] @ ascii ''t have the setup command, you can also run:'',
     ascii '''',
     ascii ''  python -c '' @ [0x22]
       @ ascii ''from ticktick_mcp.client import setup_auth; setup_auth()'' @ [0x22],
     ascii '''',
     replicate 80 (of_char (CHR ''='')),
     ascii '''']"

text \<open>
  \<open>_get_user_input(self, prompt)\<close>: the result (the line read, or what is raised) and
  the effects.
\<close>

definition get_user_input :: "stdin \<Rightarrow> pystr \<Rightarrow> (raised + pystr) \<times> event list" where
  "get_user_input io prompt =
    (if \<not> isatty io
     then (Inl (Exception (RuntimeError (str_join [0x0A] error_msg))), [])
     else (input_result io prompt, [Input prompt]))"

section \<open>client.py: the standalone setup and the session singleton\<close>

text \<open>The list \<open>[CLIENT_ID, CLIENT_SECRET, REDIRECT_URI, USERNAME, PASSWORD]\<close>.\<close>

definition credentials :: "config \<Rightarrow> pyval list" where
  "credentials cfg =
    [getenv_val (CLIENT_ID cfg), getenv_val (CLIENT_SECRET cfg), getenv_val (REDIRECT_URI cfg),
     getenv_val (USERNAME cfg), getenv_val (PASSWORD cfg)]"

text \<open>\<open>dotenv_dir_path / ".token-oauth"\<close>.\<close>

definition cache_path :: "config \<Rightarrow> path" where
  "cache_path cfg = dotenv_dir_path cfg @ [ascii ''.token-oauth'']"

text \<open>The call \<open>MCPFriendlyOAuth2(...)\<close> of both functions, and its event.\<close>

definition new_oauth2 :: "config \<Rightarrow> library \<Rightarrow> raised + oauth2" where
  "new_oauth2 cfg lib =
    MCPFriendlyOAuth2 lib (getenv_val (CLIENT_ID cfg)) (getenv_val (CLIENT_SECRET cfg))
      (getenv_val (REDIRECT_URI cfg)) (cache_path cfg)"

definition new_oauth2_event :: "config \<Rightarrow> event" where
  "new_oauth2_event cfg =
    OAuth2_call (getenv_val (CLIENT_ID cfg)) (getenv_val (CLIENT_SECRET cfg))
      (getenv_val (REDIRECT_URI cfg)) (cache_path cfg)"

text \<open>The call \<open>TickTickClient(USERNAME, PASSWORD, auth_client)\<close>, and its event.\<close>

definition new_client :: "config \<Rightarrow> library \<Rightarrow> oauth2 \<Rightarrow> raised + ticktick_client" where
  "new_client cfg lib auth_client =
    TickTickClient lib (getenv_val (USERNAME cfg)) (getenv_val (PASSWORD cfg)) auth_client"

definition new_client_event :: "config \<Rightarrow> oauth2 \<Rightarrow> event" where
  "new_client_event cfg auth_client =
    TickTickClient_call (getenv_val (USERNAME cfg)) (getenv_val (PASSWORD cfg)) auth_client"

text \<open>
  \<open>setup_auth()\<close>, lines 54 to 86. First the clause \<open>except Exception as e\<close> of its
  \<open>try\<close>, lines 83 to 86: an \<open>Exception\<close> is logged and then printed, and the function
  returns \<open>False\<close>, unless that \<open>print\<close> raises in its turn; anything else propagates.
  The check mark is U+2705, the cross mark U+274C.
\<close>

definition setup_auth_except ::
  "stdout \<Rightarrow> event list \<Rightarrow> raised \<Rightarrow> (raised + bool) \<times> event list" where
  "setup_auth_except out evs r =
    (case r of
       Exception e \<Rightarrow>
         (let evs' = evs @
                [Logging ERROR ([0x274C] @ ascii '' Error during authentication: {}'') [FExc e]];
              line = [0x274C] @ ascii '' Error during authentication: '' @ exc_str e
          in
          case out line of
            Some e' \<Rightarrow> (Inl (Exception e'), evs')
          | None \<Rightarrow> (Inr False, evs' @ [Print line]))
     | BaseException b \<Rightarrow> (Inl (BaseException b), evs))"

text \<open>The \<open>try\<close> block, lines 66 to 81, after the effects \<open>evs0\<close>.\<close>

definition setup_auth_try ::
  "config \<Rightarrow> library \<Rightarrow> stdout \<Rightarrow> event list \<Rightarrow> (raised + bool) \<times> event list" where
  "setup_auth_try cfg lib out evs0 =
    (let evs1 = evs0 @
       [Logging INFO (ascii ''Initializing OAuth2 with cache path: {}'') [FPath (cache_path cfg)],
        new_oauth2_event cfg]
     in
     case new_oauth2 cfg lib of
       Inl r \<Rightarrow> setup_auth_except out evs1 r
     | Inr auth_client \<Rightarrow>
         (let evs2 = evs1 @
            [Logging INFO (ascii ''Initializing TickTickClient with username: {}'')
               [FVal (getenv_val (USERNAME cfg))],
             new_client_event cfg auth_client]
          in
          case new_client cfg lib auth_client of
            Inl r \<Rightarrow> setup_auth_except out evs2 r
          | Inr client \<Rightarrow>
              (let evs3 = evs2 @
                 [Logging INFO ([0x2705] @ ascii
                    '' Authentication successful! Token cached for future use.'') []];
                   line1 = [0x2705] @ ascii '' Authentication successful!'';
                   line2 = ascii ''You can now run the MCP server.''
               in
               case out line1 of
                 Some e \<Rightarrow> setup_auth_except out evs3 (Exception e)
               | None \<Rightarrow>
                   (case out line2 of
                      Some e \<Rightarrow> setup_auth_except out (evs3 @ [Print line1]) (Exception e)
                    | None \<Rightarrow> (Inr True, evs3 @ [Print line1, Print line2])))))"

text \<open>The whole function: the three lines printed first stand outside the \<open>try\<close>.\<close>

definition setup_auth :: "config \<Rightarrow> library \<Rightarrow> stdout \<Rightarrow> (raised + bool) \<times> event list" where
  "setup_auth cfg lib out =
    (let line1 = ascii ''Setting up TickTick MCP Server authentication...'';
         line2 = ascii ''This will handle the OAuth2 flow interactively.''
     in
     case out line1 of
       Some e \<Rightarrow> (Inl (Exception e), [])
     | None \<Rightarrow>
         (case out line2 of
            Some e \<Rightarrow> (Inl (Exception e), [Print line1])
          | None \<Rightarrow>
              (case out [] of
                 Some e \<Rightarrow> (Inl (Exception e), [Print line1, Print line2])
               | None \<Rightarrow>
                   (let evs0 = [Print line1, Print line2, Print []] in
                    if \<not> py_all (credentials cfg) then
                      (Inr False,
                       evs0 @ [Logging ERROR (ascii
                         ''TickTick credentials not found in environment variables. Ensure .env file is correct.'') []])
                    else setup_auth_try cfg lib out evs0))))"

text \<open>
  The class attributes \<open>_instance\<close> and \<open>_initialized\<close> of \<open>TickTickClientSingleton\<close>;
  at import they are \<open>None\<close> and \<open>False\<close>.
\<close>

record singleton =
  cls_instance :: "ticktick_client option"
  cls_initialized :: bool

definition singleton0 :: singleton where
  "singleton0 = \<lparr>cls_instance = None, cls_initialized = False\<rparr>"

text \<open>
  The clauses \<open>except Exception as e\<close> and \<open>finally\<close> of \<open>__init__\<close>: an \<open>Exception\<close> is
  logged and leaves \<open>_instance\<close> at \<open>None\<close>; anything else propagates; either way
  \<open>_initialized\<close> becomes \<open>True\<close>.
\<close>

definition init_except ::
  "singleton \<Rightarrow> event list \<Rightarrow> raised \<Rightarrow> (raised + unit) \<times> singleton \<times> event list" where
  "init_except s evs r =
    (case r of
       Exception e \<Rightarrow>
         (Inr (), s\<lparr>cls_instance := None, cls_initialized := True\<rparr>,
          evs @ [Logging ERROR
            (ascii ''Error initializing TickTick client within singleton: {}'') [FExc e]])
     | BaseException b \<Rightarrow> (Inl (BaseException b), s\<lparr>cls_initialized := True\<rparr>, evs))"

text \<open>
  \<open>TickTickClientSingleton()\<close>: \<open>__new__\<close> only creates the object, and \<open>__init__\<close>,
  lines 104 to 134, works on the class attributes.
\<close>

definition init ::
  "config \<Rightarrow> library \<Rightarrow> singleton \<Rightarrow> (raised + unit) \<times> singleton \<times> event list" where
  "init cfg lib s =
    (if cls_initialized s then (Inr (), s, [])
     else if \<not> py_all (credentials cfg) then
       (Inr (), s\<lparr>cls_instance := None, cls_initialized := True\<rparr>,
        [Logging ERROR (ascii
          ''TickTick credentials not found in environment variables (checked in config.py). Ensure .env file is correct.'') []])
     else
       (let evs1 =
          [Logging INFO (ascii ''Initializing OAuth2 with cache path: {}'') [FPath (cache_path cfg)],
           new_oauth2_event cfg]
        in
        case new_oauth2 cfg lib of
          Inl r \<Rightarrow> init_except s evs1 r
        | Inr auth_client \<Rightarrow>
            (let evs2 = evs1 @
               [Logging INFO (ascii ''Initializing TickTickClient with username: {}'')
                  [FVal (getenv_val (USERNAME cfg))],
                new_client_event cfg auth_client]
             in
             case new_client cfg lib auth_client of
               Inl r \<Rightarrow> init_except s evs2 r
             | Inr client \<Rightarrow>
                 (Inr (), s\<lparr>cls_instance := Some client, cls_initialized := True\<rparr>,
                  evs2 @ [Logging INFO (ascii
                    ''TickTick client initialized successfully within singleton.'') []]))))"

text \<open>\<open>TickTickClientSingleton.get_client()\<close>, lines 136 to 143.\<close>

definition get_client ::
  "config \<Rightarrow> library \<Rightarrow> singleton \<Rightarrow> (raised + ticktick_client option) \<times> singleton \<times> event list" where
  "get_client cfg lib s =
    (case (if \<not> cls_initialized s then init cfg lib s else (Inr (), s, [])) of
       (Inl r, s1, evs) \<Rightarrow> (Inl r, s1, evs)
     | (Inr u, s1, evs) \<Rightarrow>
         (case cls_instance s1 of
            None \<Rightarrow>
              (Inr None, s1,
               evs @ [Logging WARNING (ascii
                 ''get_client() called, but TickTick client failed to initialize.'') []])
          | Some client \<Rightarrow> (Inr (Some client), s1, evs)))"

section \<open>helpers.py\<close>

text \<open>
  \<open>format_response(result)\<close>, lines 12 to 24. The clause \<open>except TypeError\<close> catches a
  \<open>TypeError\<close> of \<open>json.dumps\<close> and nothing else. The f-strings of lines 18 and 23
  take \<open>str(result)\<close> before anything is logged, and raise what it raises: at line
  18 \<open>result\<close> is a list or a dictionary, at line 23 it is neither.
\<close>

definition format_response :: "interpreter \<Rightarrow> pyval \<Rightarrow> (raised + pystr) \<times> event list" where
  "format_response py result =
    (if isinstance_dict result \<or> isinstance_list result then
       (case json_dumps py True (Some 2) result of
          Inr text \<Rightarrow> (Inr text, [])
        | Inl (TypeError m) \<Rightarrow>
            (case repr_raises py result of
               Some e' \<Rightarrow> (Inl (Exception e'), [])
             | None \<Rightarrow>
                 (raising (json_dumps py False None
                    (PDict [(PStr (ascii ''error''), PStr (ascii ''Failed to serialize response'')),
                            (PStr (ascii ''details''), PStr (exc_str (TypeError m)))])),
                  [Logging ERROR (ascii ''Failed to serialize response object: {} - Object: {}'')
                     [FExc (TypeError m), FVal result]]))
        | Inl e \<Rightarrow> (Inl (Exception e), []))
     else if result = PNone then (raising (json_dumps py False None PNone), [])
     else
       (case py_str py result of
          Inl e' \<Rightarrow> (Inl (Exception e'), [])
        | Inr shown \<Rightarrow>
            (raising (json_dumps py False None (PDict [(PStr (ascii ''result''), PStr shown)])),
             [Logging WARNING (ascii ''Formatting unexpected type: {} - Value: {}'')
                [FType result, FVal result]])))"

text \<open>
  \<open>require_client(func)\<close>, lines 27 to 36: the wrapper it returns, applied to the
  arguments \<open>args\<close>. \<open>func\<close> is the tool function: its result and its effects. The
  module attribute \<open>client.ticktick_client\<close>, which helpers.py reads and client.py as
  given does not assign, is the parameter \<open>ticktick_client\<close>: \<open>None\<close>, or a client.
\<close>

definition require_client ::
  "interpreter \<Rightarrow> ('a \<Rightarrow> (raised + pyval) \<times> event list) \<Rightarrow> ticktick_client option \<Rightarrow> 'a
    \<Rightarrow> (raised + pyval) \<times> event list" where
  "require_client py func ticktick_client args =
    (let evs0 = [Logging INFO (ascii ''TickTick client: {}'') [FClient ticktick_client]] in
     case ticktick_client of
       None \<Rightarrow>
         (case format_response py
                 (PDict [(PStr (ascii ''error''), PStr (ascii ''TickTick client not initialized.''))]) of
            (r, evs) \<Rightarrow>
              (map_sum id PStr r,
               evs0 @ [Logging ERROR (ascii
                 ''TickTick client accessed before initialization in tool function.'') []] @ evs))
     | Some c \<Rightarrow> (case func args of (r, evs) \<Rightarrow> (r, evs0 @ evs)))"

text \<open>
  \<open>_get_all_tasks_from_ticktick()\<close>, lines 39 to 76, in its steps. First the snapshot,
  lines 46 to 50: \<open>client.ticktick_client.state.get('projects', [])\<close> under
  \<open>except Exception\<close>.
\<close>

definition projects_state_except :: "raised \<Rightarrow> (raised + pyval) \<times> event list" where
  "projects_state_except r =
    (case r of
       Exception e \<Rightarrow>
         (Inr (PList []),
          [Logging ERROR (ascii ''Error accessing client state for projects: {}'') [FExc e]])
     | BaseException b \<Rightarrow> (Inl (BaseException b), []))"

definition projects_state :: "ticktick_client \<Rightarrow> (raised + pyval) \<times> event list" where
  "projects_state c =
    (case state c of
       Inl r \<Rightarrow> projects_state_except r
     | Inr st \<Rightarrow>
         (case dict_get st (PStr (ascii ''projects'')) (PList []) of
            Inl e \<Rightarrow> projects_state_except (Exception e)
          | Inr v \<Rightarrow> (Inr v, [])))"

text \<open>
  The set comprehension \<open>{p.get('id') for p in projects_state if p.get('id')}\<close> of line
  53, over the elements \<open>ps\<close> still to visit, with the set built so far. It stands
  outside any \<open>try\<close>.
\<close>

fun id_comprehension :: "pyval list \<Rightarrow> pyval list \<Rightarrow> exc + pyval list" where
  "id_comprehension [] ids = Inr ids"
| "id_comprehension (p # ps) ids =
    (case dict_get p (PStr (ascii ''id'')) PNone of
       Inl e \<Rightarrow> Inl e
     | Inr c \<Rightarrow>
         if py_truthy c then
           (case dict_get p (PStr (ascii ''id'')) PNone of
              Inl e \<Rightarrow> Inl e
            | Inr v \<Rightarrow>
                (case set_add ids v of
                   Inl e \<Rightarrow> Inl e
                 | Inr ids' \<Rightarrow> id_comprehension ps ids'))
         else id_comprehension ps ids)"

text \<open>Lines 54 to 58: the inbox identifier joins the set, under \<open>except Exception\<close>.\<close>

definition add_inbox_except :: "pyval list \<Rightarrow> raised \<Rightarrow> (raised + pyval list) \<times> event list" where
  "add_inbox_except ids r =
    (case r of
       Exception e \<Rightarrow>
         (Inr ids, [Logging ERROR (ascii ''Error accessing client inbox_id: {}'') [FExc e]])
     | BaseException b \<Rightarrow> (Inl (BaseException b), []))"

definition add_inbox :: "ticktick_client \<Rightarrow> pyval list \<Rightarrow> (raised + pyval list) \<times> event list" where
  "add_inbox c ids =
    (case inbox_id c of
       Inl r \<Rightarrow> add_inbox_except ids r
     | Inr v \<Rightarrow>
         if py_truthy v then
           (case inbox_id c of
              Inl r \<Rightarrow> add_inbox_except ids r
            | Inr v' \<Rightarrow>
                (case set_add ids v' of
                   Inl e \<Rightarrow> add_inbox_except ids (Exception e)
                 | Inr ids' \<Rightarrow> (Inr ids', [])))
         else (Inr ids, []))"

text \<open>Lines 45 to 58 together: the set \<open>project_ids\<close>.\<close>

definition project_ids :: "ticktick_client \<Rightarrow> (raised + pyval list) \<times> event list" where
  "project_ids c =
    (case projects_state c of
       (Inl r, evs) \<Rightarrow> (Inl r, evs)
     | (Inr snapshot, evs) \<Rightarrow>
         (case py_iter snapshot of
            Inl e \<Rightarrow> (Inl (Exception e), evs)
          | Inr ps \<Rightarrow>
              (case id_comprehension ps [] of
                 Inl e \<Rightarrow> (Inl (Exception e), evs)
               | Inr ids \<Rightarrow>
                   (case add_inbox c ids of (r, evs') \<Rightarrow> (r, evs @ evs')))))"

text \<open>
  The loop of lines 61 to 73 over the identifiers \<open>pids\<close> still to visit, with
  \<open>all_tasks\<close> as built so far.
\<close>

fun fetch_loop ::
  "ticktick_client \<Rightarrow> pyval list \<Rightarrow> pyval list \<Rightarrow> (raised + pyval list) \<times> event list" where
  "fetch_loop c [] all_tasks = (Inr all_tasks, [])"
| "fetch_loop c (project_id # pids) all_tasks =
    (case task_get_from_project c project_id of
       Inl (BaseException b) \<Rightarrow> (Inl (BaseException b), [Get_from_project project_id])
     | Inl (Exception e) \<Rightarrow>
         (case fetch_loop c pids all_tasks of
            (r, evs) \<Rightarrow>
              (r, [Get_from_project project_id,
                   Logging WARNING (ascii ''Failed to get tasks for project {}: {}'')
                     [FVal project_id, FExc e]] @ evs))
     | Inr tasks_in_project \<Rightarrow>
         if py_truthy tasks_in_project then
           (case tasks_in_project of
              PList xs \<Rightarrow>
                (case fetch_loop c pids (all_tasks @ xs) of
                   (r, evs) \<Rightarrow> (r, Get_from_project project_id # evs))
            | PDict kvs \<Rightarrow>
                (case fetch_loop c pids (all_tasks @ [tasks_in_project]) of
                   (r, evs) \<Rightarrow> (r, Get_from_project project_id # evs))
            | _ \<Rightarrow>
                (case fetch_loop c pids all_tasks of
                   (r, evs) \<Rightarrow>
                     (r, [Get_from_project project_id,
                          Logging WARNING (ascii
                            ''Unexpected data type received from get_from_project for {}: {}'')
                            [FVal project_id, FType tasks_in_project]] @ evs)))
         else
           (case fetch_loop c pids all_tasks of
              (r, evs) \<Rightarrow> (r, Get_from_project project_id # evs)))"

text \<open>
  The whole function. The order in which a \<open>for\<close> loop visits a set is the
  interpreter's: \<open>set_order\<close> gives it, from the elements in insertion order.
\<close>

definition get_all_tasks_from_ticktick ::
  "(pyval list \<Rightarrow> pyval list) \<Rightarrow> ticktick_client option \<Rightarrow> (raised + pyval list) \<times> event list" where
  "get_all_tasks_from_ticktick set_order ticktick_client =
    (case ticktick_client of
       None \<Rightarrow>
         (Inl (Exception (ConnectionError (ascii ''TickTick client not initialized.''))),
          [Logging ERROR (ascii
            ''_get_all_tasks_from_ticktick called when client is not initialized.'') []])
     | Some c \<Rightarrow>
         (case project_ids c of
            (Inl r, evs) \<Rightarrow> (Inl r, evs)
          | (Inr ids, evs) \<Rightarrow>
              (let evs1 = evs @
                 [Logging DEBUG (ascii ''Fetching uncompleted tasks from {} projects...'')
                    [FVal (PInt (int (length ids)))]]
               in
               case fetch_loop c (set_order ids) [] of
                 (Inl r, evs') \<Rightarrow> (Inl r, evs1 @ evs')
               | (Inr all_tasks, evs') \<Rightarrow>
                   (Inr all_tasks,
                    evs1 @ evs' @
                    [Logging INFO (ascii ''Found {} total uncompleted tasks.'')
                       [FVal (PInt (int (length all_tasks)))]]))))"

section \<open>Notions of the specification\<close>

text \<open>A credential field that is empty or absent.\<close>

definition missing :: "pystr option \<Rightarrow> bool" where
  "missing x = (x = None \<or> x = Some [])"

text \<open>The constructions of the negotiator and of the client, among the effects.\<close>

fun is_OAuth2_call :: "event \<Rightarrow> bool" where
  "is_OAuth2_call (OAuth2_call a b c d) = True"
| "is_OAuth2_call e = False"

fun is_TickTickClient_call :: "event \<Rightarrow> bool" where
  "is_TickTickClient_call (TickTickClient_call a b c) = True"
| "is_TickTickClient_call e = False"

text \<open>
  A caller that calls \<open>get_client()\<close> once for each element of \<open>libs\<close>, one call after
  the other: the element is the outside world as that call would find it, were it to
  construct anything. It collects what each call returns or raises.
\<close>

fun get_client_calls ::
  "config \<Rightarrow> library list \<Rightarrow> singleton \<Rightarrow>
    (raised + ticktick_client option) list \<times> singleton \<times> event list" where
  "get_client_calls cfg [] s = ([], s, [])"
| "get_client_calls cfg (lib # libs) s =
    (case get_client cfg lib s of
       (r, s1, evs) \<Rightarrow>
         (case get_client_calls cfg libs s1 of
            (rs, s2, evs2) \<Rightarrow> (r # rs, s2, evs @ evs2)))"

text \<open>A value that holds no reference back to a container enclosing it.\<close>

fun acyclic :: "pyval \<Rightarrow> bool" where
  "acyclic (PList xs) = list_all acyclic xs"
| "acyclic (PDict kvs) = list_all (\<lambda>kv. acyclic (fst kv) \<and> acyclic (snd kv)) kvs"
| "acyclic PCycle = False"
| "acyclic v = True"

text \<open>
  A value within the limits of the interpreter: every integer in it, also as a key of a
  dictionary, has no more digits than the limit on conversions to text allows, no list
  or dictionary lies deeper than the encoder can go, and an object of another type lies
  where the encoder can still call \<open>str\<close> on it. \<open>lvl\<close> is the number of containers around
  the value.
\<close>

definition int_fits :: "interpreter \<Rightarrow> int \<Rightarrow> bool" where
  "int_fits py i =
    (int_max_str_digits py = 0 \<or> length (nat_digits (nat \<bar>i\<bar>)) \<le> int_max_str_digits py)"

fun key_fits :: "interpreter \<Rightarrow> pyval \<Rightarrow> bool" where
  "key_fits py (PInt i) = int_fits py i"
| "key_fits py k = True"

fun within_limits :: "interpreter \<Rightarrow> nat \<Rightarrow> pyval \<Rightarrow> bool" where
  "within_limits py lvl (PInt i) = int_fits py i"
| "within_limits py lvl (PList xs) =
    (lvl \<le> max_nesting py \<and> list_all (within_limits py (Suc lvl)) xs)"
| "within_limits py lvl (PDict kvs) =
    (lvl \<le> max_nesting py
     \<and> list_all (\<lambda>kv. key_fits py (fst kv) \<and> within_limits py (Suc lvl) (snd kv)) kvs)"
| "within_limits py lvl (PObj oid cls s) = (lvl = 0 \<or> lvl < max_nesting py)"
| "within_limits py lvl v = True"



text \<open>The identifiers fetched from, in order, among the effects.\<close>

fun fetched :: "event list \<Rightarrow> pyval list" where
  "fetched [] = []"
| "fetched (Get_from_project project_id # evs) = project_id # fetched evs"
| "fetched (ev # evs) = fetched evs"

text \<open>No fetch for these identifiers ends in a signal that is no \<open>Exception\<close>.\<close>

definition no_signal :: "ticktick_client \<Rightarrow> pyval list \<Rightarrow> bool" where
  "no_signal c pids =
    list_all (\<lambda>p. case task_get_from_project c p of Inl (BaseException b) \<Rightarrow> False | _ \<Rightarrow> True) pids"

text \<open>
  The identifiers found in a snapshot: of each entry that is a dictionary, the value
  under \<open>id\<close> when there is one and it is truthy. The default identifier: the inbox
  identifier when it can be read and is truthy (and can be a member of a set).
\<close>

fun entry_identifier :: "pyval \<Rightarrow> pyval list" where
  "entry_identifier (PDict kvs) =
    (case map_of kvs (PStr (ascii ''id'')) of
       None \<Rightarrow> []
     | Some v \<Rightarrow> if py_truthy v then [v] else [])"
| "entry_identifier p = []"

definition snapshot_identifiers :: "pyval list \<Rightarrow> pyval list" where
  "snapshot_identifiers ps = concat (map entry_identifier ps)"

definition default_identifier :: "ticktick_client \<Rightarrow> pyval list" where
  "default_identifier c =
    (case inbox_id c of
       Inl r \<Rightarrow> []
     | Inr v \<Rightarrow> if py_truthy v \<and> py_hashable v then [v] else [])"

text \<open>A snapshot entry as the service gives it: a dictionary whose \<open>id\<close>, if any, is hashable.\<close>

fun well_formed_entry :: "pyval \<Rightarrow> bool" where
  "well_formed_entry (PDict kvs) =
    (case map_of kvs (PStr (ascii ''id'')) of
       None \<Rightarrow> True
     | Some v \<Rightarrow> py_hashable v)"
| "well_formed_entry p = False"

section \<open>Example inputs\<close>

text \<open>
  An interpreter with the default digit limit, whose stack lets the JSON encoder go
  900 levels deep, and in which no \<open>repr\<close> of a container raises.
\<close>

definition cpython :: interpreter where
  "cpython =
    \<lparr>int_max_str_digits = 4300, max_nesting = 900,
     recursion_message = ascii ''maximum recursion depth exceeded'',
     repr_raises = (\<lambda>v. None)\<rparr>"

text \<open>An integer of 4301 digits.\<close>

definition ten_to_4300 :: int where
  "ten_to_4300 = 10 ^ 4300"

definition example_config :: config where
  "example_config =
    \<lparr>CLIENT_ID = Some (ascii ''id''), CLIENT_SECRET = Some (ascii ''secret''),
     REDIRECT_URI = Some (ascii ''http://127.0.0.1:8080''),
     USERNAME = Some (ascii ''user@example.com''), PASSWORD = Some (ascii ''pw''),
     dotenv_dir_path = [ascii ''home'', ascii ''.config'']\<rparr>"

text \<open>
  A client whose snapshot lists the projects A and B and whose inbox is C: the fetch
  for A raises, the one for B returns an empty list, the one for C two records.
\<close>

definition task1 :: pyval where
  "task1 = PDict [(PStr (ascii ''id''), PStr (ascii ''t1'')), (PStr (ascii ''title''), PStr (ascii ''Buy milk''))]"

definition task2 :: pyval where
  "task2 = PDict [(PStr (ascii ''id''), PStr (ascii ''t2'')), (PStr (ascii ''priority''), PInt 3)]"

definition example_fetch :: "pyval \<Rightarrow> raised + pyval" where
  "example_fetch project_id =
    (if project_id = PStr (ascii ''A'')
     then Inl (Exception (OtherException (ascii ''HTTPError'') (ascii ''500 Server Error'')))
     else if project_id = PStr (ascii ''C'') then Inr (PList [task1, task2])
     else Inr (PList []))"

definition example_client :: ticktick_client where
  "example_client =
    \<lparr>state = Inr (PDict [(PStr (ascii ''projects''),
        PList [PDict [(PStr (ascii ''id''), PStr (ascii ''A''))],
               PDict [(PStr (ascii ''id''), PStr (ascii ''B''))]])]),
     inbox_id = Inr (PStr (ascii ''C'')),
     task_get_from_project = example_fetch\<rparr>"

text \<open>
  The library when a token is cached, and when there is none and standard input is
  not a terminal: then the negotiator's constructor raises what \<open>_get_user_input\<close>
  raises.
\<close>

definition library_ok :: library where
  "library_ok =
    \<lparr>MCPFriendlyOAuth2 = (\<lambda>client_id client_secret redirect_uri cache. Inr (OAuth2 (ascii ''token''))),
     TickTickClient = (\<lambda>username password oauth. Inr example_client)\<rparr>"

definition library_no_token :: library where
  "library_no_token =
    \<lparr>MCPFriendlyOAuth2 = (\<lambda>client_id client_secret redirect_uri cache.
        Inl (Exception (RuntimeError (str_join [0x0A] error_msg)))),
     TickTickClient = (\<lambda>username password oauth. Inr example_client)\<rparr>"

text \<open>
  Clients with a given state and inbox identifier, whose every project is empty; a
  state with the projects P1 and P2, and one with entries that carry no usable
  identifier.
\<close>

definition state_P1_P2 :: pyval where
  "state_P1_P2 =
    PDict [(PStr (ascii ''projects''),
      PList [PDict [(PStr (ascii ''id''), PStr (ascii ''P1'')), (PStr (ascii ''name''), PStr (ascii ''Work''))],
             PDict [(PStr (ascii ''id''), PStr (ascii ''P2''))]])]"

definition state_missing_ids :: pyval where
  "state_missing_ids =
    PDict [(PStr (ascii ''projects''),
      PList [PDict [(PStr (ascii ''name''), PStr (ascii ''no identifier''))],
             PDict [(PStr (ascii ''id''), PStr [])],
             PDict [(PStr (ascii ''id''), PNone)],
             PDict [(PStr (ascii ''id''), PStr (ascii ''P1''))]])]"

definition client_with :: "raised + pyval \<Rightarrow> raised + pyval \<Rightarrow> ticktick_client" where
  "client_with st inbox =
    \<lparr>state = st, inbox_id = inbox, task_get_from_project = (\<lambda>project_id. Inr (PList []))\<rparr>"

section \<open>Properties\<close>

subsection \<open>The user-input operation\<close>

lemma sublist_str_join:
  "l \<in> set ls \<Longrightarrow> sublist l (str_join sep ls)"
proof (induction sep ls rule: str_join.induct)
  case (1 sep)
  then show ?case by simp
next
  case (2 sep x)
  then show ?case by simp
next
  case (3 sep x y ys)
  show ?case
  proof (cases "l = x")
    case True
    then show ?thesis by simp
  next
    case False
    with 3 have "sublist l (str_join sep (y # ys))" by simp
    then show ?thesis by (simp add: sublist_append)
  qed
qed

lemma setup_command_in_error_msg:
  "sublist (ascii ''ticktick-mcp-setup'') (str_join [0x0A] error_msg)"
proof -
  have "ascii ''  ticktick-mcp-setup'' = ascii ''  '' @ ascii ''ticktick-mcp-setup''"
    by (simp add: ascii_def)
  then have "sublist (ascii ''ticktick-mcp-setup'') (ascii ''  ticktick-mcp-setup'')"
    by simp
  moreover have "ascii ''  ticktick-mcp-setup'' \<in> set error_msg"
    by (simp add: error_msg_def)
  ultimately show ?thesis
    using sublist_str_join sublist_order.order_trans by blast
qed

text \<open>
  C1. When standard input is not a terminal, \<open>_get_user_input\<close> raises at once a
  \<open>RuntimeError\<close> whose message names the setup command \<open>ticktick-mcp-setup\<close>, and it
  performs no read from standard input.
\<close>

theorem get_user_input_not_a_tty:
  assumes "\<not> isatty io"
  shows "fst (get_user_input io prompt) = Inl (Exception (RuntimeError (str_join [0x0A] error_msg)))
    \<and> sublist (ascii ''ticktick-mcp-setup'') (str_join [0x0A] error_msg)
    \<and> snd (get_user_input io prompt) = []"
  using assms setup_command_in_error_msg by (simp add: get_user_input_def)

theorem get_user_input_not_a_tty_witness:
  "fst (get_user_input \<lparr>isatty = False, input_result = (\<lambda>p. Inr (ascii ''code''))\<rparr> (ascii ''Enter: ''))
      = Inl (Exception (RuntimeError (str_join [0x0A] error_msg)))
    \<and> snd (get_user_input \<lparr>isatty = False, input_result = (\<lambda>p. Inr (ascii ''code''))\<rparr> (ascii ''Enter: ''))
      = []"
  using get_user_input_not_a_tty
    [of "\<lparr>isatty = False, input_result = (\<lambda>p. Inr (ascii ''code''))\<rparr>" "ascii ''Enter: ''"]
  by simp

subsection \<open>The session singleton\<close>

lemma py_truthy_getenv_val: "py_truthy (getenv_val x) = (\<not> missing x)"
  by (cases x) (auto simp: missing_def)

lemma py_all_credentials:
  "py_all (credentials cfg) =
    (\<not> missing (CLIENT_ID cfg) \<and> \<not> missing (CLIENT_SECRET cfg) \<and> \<not> missing (REDIRECT_URI cfg)
     \<and> \<not> missing (USERNAME cfg) \<and> \<not> missing (PASSWORD cfg))"
  by (simp add: py_all_def credentials_def py_truthy_getenv_val)

lemma py_all_example_config: "py_all (credentials example_config)"
  by (simp add: py_all_credentials example_config_def missing_def ascii_def)

lemma get_client_initialized:
  "cls_initialized s \<Longrightarrow>
    get_client cfg lib s =
      (Inr (cls_instance s), s,
       (case cls_instance s of
          None \<Rightarrow> [Logging WARNING (ascii
            ''get_client() called, but TickTick client failed to initialize.'') []]
        | Some c \<Rightarrow> []))"
  by (simp add: get_client_def split: option.splits)

lemma init_except_initialized:
  "cls_initialized (fst (snd (init_except s evs r)))"
  by (simp add: init_except_def split: raised.splits)

lemma init_initialized:
  "cls_initialized (fst (snd (init cfg lib s)))"
  by (simp add: init_def Let_def init_except_initialized split: sum.splits)

lemma get_client_marks_initialized:
  "cls_initialized (fst (snd (get_client cfg lib s)))"
proof (cases "cls_initialized s")
  case True
  then show ?thesis by (simp add: get_client_initialized)
next
  case False
  obtain r s1 evs where i: "init cfg lib s = (r, s1, evs)"
    by (cases "init cfg lib s") auto
  with init_initialized [of cfg lib s] have "cls_initialized s1" by simp
  with False i show ?thesis
    by (simp add: get_client_def split: sum.splits option.splits)
qed

lemma init_never_raises_Exception:
  "fst (init cfg lib s) \<noteq> Inl (Exception e)"
  by (simp add: init_def Let_def init_except_def split: sum.splits raised.splits)


lemma get_client_result:
  "fst (get_client cfg lib s) = Inr (cls_instance (fst (snd (get_client cfg lib s))))
    \<or> (\<exists>b. fst (get_client cfg lib s) = Inl (BaseException b))"
proof (cases "cls_initialized s")
  case True
  then show ?thesis by (simp add: get_client_initialized)
next
  case False
  obtain r s1 evs where i: "init cfg lib s = (r, s1, evs)"
    by (cases "init cfg lib s") auto
  show ?thesis
  proof (cases r)
    case (Inl x)
    with init_never_raises_Exception [of cfg lib s] i have "\<exists>b. x = BaseException b"
      by (cases x) auto
    with False i Inl show ?thesis by (auto simp: get_client_def)
  next
    case (Inr u)
    with False i show ?thesis
      by (simp add: get_client_def split: option.splits)
  qed
qed

lemma get_client_calls_initialized:
  "cls_initialized s \<Longrightarrow> get_client_calls cfg libs s = (rs, s2, evs) \<Longrightarrow>
    s2 = s \<and> rs = replicate (length libs) (Inr (cls_instance s)) \<and> filter is_io evs = []"
proof (induction libs arbitrary: rs s2 evs)
  case Nil
  then show ?case by simp
next
  case (Cons lib libs)
  obtain rs' s' evs' where r: "get_client_calls cfg libs s = (rs', s', evs')"
    by (cases "get_client_calls cfg libs s") auto
  with Cons.IH [OF Cons.prems(1) r] Cons.prems show ?case
    by (auto simp: get_client_initialized split: option.splits)
qed

lemma init_calls_once:
  "length (filter is_OAuth2_call (snd (snd (init cfg lib s)))) \<le> 1
   \<and> length (filter is_TickTickClient_call (snd (snd (init cfg lib s)))) \<le> 1"
  by (auto simp: init_def Let_def init_except_def new_oauth2_event_def new_client_event_def
      split: sum.splits raised.splits)

lemma get_client_calls_once:
  "length (filter is_OAuth2_call (snd (snd (get_client cfg lib s)))) \<le> 1
   \<and> length (filter is_TickTickClient_call (snd (snd (get_client cfg lib s)))) \<le> 1"
proof -
  obtain r s1 evs where i: "init cfg lib s = (r, s1, evs)"
    by (cases "init cfg lib s") auto
  with init_calls_once [of cfg lib s] show ?thesis
    by (auto simp: get_client_def split: sum.splits option.splits)
qed

text \<open>
  C2. Take a first call of \<open>get_client()\<close>, in any state \<open>s\<close> of the class attributes,
  and after it any number of further calls, each facing an outside world of its own.
  The first call leaves \<open>_initialized\<close> set and returns \<open>_instance\<close> as it left it
  (unless a signal that is no \<open>Exception\<close> passed through it); every further call
  returns that same \<open>_instance\<close>, changes nothing and performs no I/O, whether the
  initialization gave a client or not; so over all the calls the negotiator and the
  client are each constructed at most once.
\<close>

theorem get_client_idempotent:
  assumes "get_client cfg lib s = (r, s1, evs)"
    and "get_client_calls cfg libs s1 = (rs, s2, evs')"
  shows "cls_initialized s1 \<and> s2 = s1
    \<and> (r = Inr (cls_instance s1) \<or> (\<exists>b. r = Inl (BaseException b)))
    \<and> rs = replicate (length libs) (Inr (cls_instance s1))
    \<and> filter is_io evs' = []
    \<and> length (filter is_OAuth2_call (evs @ evs')) \<le> 1
    \<and> length (filter is_TickTickClient_call (evs @ evs')) \<le> 1"
proof -
  from assms(1) get_client_marks_initialized [of cfg lib s]
  have init: "cls_initialized s1" by simp
  from get_client_calls_initialized [OF init assms(2)]
  have later: "s2 = s1" "rs = replicate (length libs) (Inr (cls_instance s1))"
    "filter is_io evs' = []" by simp_all
  from assms(1) get_client_result [of cfg lib s]
  have first: "r = Inr (cls_instance s1) \<or> (\<exists>b. r = Inl (BaseException b))" by simp
  have "is_OAuth2_call e \<Longrightarrow> is_io e" "is_TickTickClient_call e \<Longrightarrow> is_io e" for e
    by (cases e; simp)+
  then have "filter is_OAuth2_call (filter is_io evs') = filter is_OAuth2_call evs'"
    "filter is_TickTickClient_call (filter is_io evs') = filter is_TickTickClient_call evs'"
    by (auto intro: filter_cong)
  with later(3) have none: "filter is_OAuth2_call evs' = []" "filter is_TickTickClient_call evs' = []"
    by simp_all
  from assms(1) get_client_calls_once [of cfg lib s]
  have once: "length (filter is_OAuth2_call evs) \<le> 1"
    "length (filter is_TickTickClient_call evs) \<le> 1" by simp_all
  from init later first none once show ?thesis by simp
qed

theorem get_client_idempotent_witness:
  "fst (get_client example_config library_ok singleton0) = Inr (Some example_client)
   \<and> fst (snd (get_client example_config library_ok singleton0))
       = \<lparr>cls_instance = Some example_client, cls_initialized = True\<rparr>
   \<and> get_client_calls example_config [library_no_token, library_no_token]
        \<lparr>cls_instance = Some example_client, cls_initialized = True\<rparr>
       = ([Inr (Some example_client), Inr (Some example_client)],
          \<lparr>cls_instance = Some example_client, cls_initialized = True\<rparr>, [])"
proof -
  obtain evs where first: "get_client example_config library_ok singleton0 =
      (Inr (Some example_client), \<lparr>cls_instance = Some example_client, cls_initialized = True\<rparr>, evs)"
    by (simp add: get_client_def init_def py_all_example_config singleton0_def Let_def
        new_oauth2_def new_client_def library_ok_def)
  obtain rs s2 evs' where later:
    "get_client_calls example_config [library_no_token, library_no_token]
        \<lparr>cls_instance = Some example_client, cls_initialized = True\<rparr> = (rs, s2, evs')"
    by (cases "get_client_calls example_config [library_no_token, library_no_token]
        \<lparr>cls_instance = Some example_client, cls_initialized = True\<rparr>") auto
  have "evs' = []"
    using later by (simp add: get_client_initialized)
  with get_client_idempotent [OF first later] first later show ?thesis
    by (simp add: numeral_2_eq_2)
qed



text \<open>
  C7. When one of the five credential fields is empty or absent, a first call of
  \<open>get_client()\<close> returns \<open>None\<close> without raising, sets \<open>_initialized\<close>, and its only
  effects are two log records, the error and the warning: nothing is constructed,
  whatever the library would have done.
\<close>

theorem get_client_missing_credential:
  assumes "\<not> cls_initialized s"
    and "missing (CLIENT_ID cfg) \<or> missing (CLIENT_SECRET cfg) \<or> missing (REDIRECT_URI cfg)
      \<or> missing (USERNAME cfg) \<or> missing (PASSWORD cfg)"
  shows "get_client cfg lib s =
    (Inr None, s\<lparr>cls_instance := None, cls_initialized := True\<rparr>,
     [Logging ERROR (ascii
        ''TickTick credentials not found in environment variables (checked in config.py). Ensure .env file is correct.'') [],
      Logging WARNING (ascii ''get_client() called, but TickTick client failed to initialize.'') []])"
proof -
  from assms(2) have "\<not> py_all (credentials cfg)"
    by (auto simp: py_all_credentials)
  with assms(1) show ?thesis
    by (simp add: get_client_def init_def)
qed

theorem get_client_missing_credential_witness:
  "get_client (example_config\<lparr>REDIRECT_URI := Some []\<rparr>) library_ok singleton0 =
    (Inr None, \<lparr>cls_instance = None, cls_initialized = True\<rparr>,
     [Logging ERROR (ascii
        ''TickTick credentials not found in environment variables (checked in config.py). Ensure .env file is correct.'') [],
      Logging WARNING (ascii ''get_client() called, but TickTick client failed to initialize.'') []])
   \<and> fst (get_client (example_config\<lparr>PASSWORD := None\<rparr>) library_ok singleton0) = Inr None"
  using get_client_missing_credential [of singleton0 "example_config\<lparr>REDIRECT_URI := Some []\<rparr>" library_ok]
    get_client_missing_credential [of singleton0 "example_config\<lparr>PASSWORD := None\<rparr>" library_ok]
  by (simp add: singleton0_def missing_def)

subsection \<open>Strings and JSON\<close>

lemma ascii_eq_iff [simp]: "ascii s = ascii t \<longleftrightarrow> s = t"
  by (simp add: ascii_def inj_map_eq_map inj_of_char)

lemma ascii_eq_Nil_iff [simp]: "ascii s = [] \<longleftrightarrow> s = []"
  by (simp add: ascii_def)

lemma ascii_append: "ascii (s @ t) = ascii s @ ascii t"
  by (simp add: ascii_def)

lemma encode_ascii_literals:
  "py_encode_basestring_ascii (ascii ''error'') = [34] @ ascii ''error'' @ [34]"
  "py_encode_basestring_ascii (ascii ''details'') = [34] @ ascii ''details'' @ [34]"
  "py_encode_basestring_ascii (ascii ''result'') = [34] @ ascii ''result'' @ [34]"
  "py_encode_basestring_ascii (ascii ''Failed to serialize response'')
    = [34] @ ascii ''Failed to serialize response'' @ [34]"
  "py_encode_basestring_ascii (ascii ''TickTick client not initialized.'')
    = [34] @ ascii ''TickTick client not initialized.'' @ [34]"
  by code_simp+

lemma json_dumps_not_initialized:
  "json_dumps py True (Some 2)
     (PDict [(PStr (ascii ''error''), PStr (ascii ''TickTick client not initialized.''))])
   = Inr (ascii ''{'' @ [10] @ ascii ''  '' @ [34] @ ascii ''error'' @ [34] @ ascii '': '' @ [34]
       @ ascii ''TickTick client not initialized.'' @ [34, 10] @ ascii ''}'')"
proof -
  have "replicate 2 32 = ascii ''  ''" by code_simp
  then show ?thesis
    by (simp add: json_dumps_def encode_ascii_literals newline_indent_def item_separator_def)
qed

lemma json_dumps_error_object:
  "json_dumps py False None
     (PDict [(PStr (ascii ''error''), PStr (ascii ''Failed to serialize response'')),
             (PStr (ascii ''details''), PStr m)])
   = Inr (ascii ''{'' @ [34] @ ascii ''error'' @ [34] @ ascii '': '' @ [34]
       @ ascii ''Failed to serialize response'' @ [34] @ ascii '', '' @ [34] @ ascii ''details''
       @ [34] @ ascii '': '' @ py_encode_basestring_ascii m @ ascii ''}'')"
  by (simp add: json_dumps_def encode_ascii_literals newline_indent_def item_separator_def)

lemma json_dumps_result_object:
  "json_dumps py False None (PDict [(PStr (ascii ''result''), PStr s)])
   = Inr (ascii ''{'' @ [34] @ ascii ''result'' @ [34] @ ascii '': ''
       @ py_encode_basestring_ascii s @ ascii ''}'')"
  by (simp add: json_dumps_def encode_ascii_literals newline_indent_def item_separator_def)

lemma json_dumps_None: "json_dumps py False None PNone = Inr (ascii ''null'')"
  by (simp add: json_dumps_def)

lemma int_repr_fits: "int_fits py i \<Longrightarrow> \<exists>text. int_repr py i = Inr text"
  by (auto simp: int_fits_def int_repr_def Let_def)

lemma json_key_fits:
  "key_fits py k \<Longrightarrow>
    (\<exists>text. json_key py k = Inr text) \<or> (\<exists>m. json_key py k = Inl (TypeError m))"
  using int_repr_fits by (cases k) auto

lemma json_encode_within_limits:
  "acyclic v \<Longrightarrow> within_limits py lvl v \<Longrightarrow>
    (\<exists>text. json_encode py dflt ind lvl v = Inr text)
    \<or> (\<exists>m. json_encode py dflt ind lvl v = Inl (TypeError m))"
  "list_all acyclic vs \<Longrightarrow> list_all (within_limits py lvl) vs \<Longrightarrow>
    (\<exists>chunks. json_encode_list py dflt ind lvl vs = Inr chunks)
    \<or> (\<exists>m. json_encode_list py dflt ind lvl vs = Inl (TypeError m))"
  "list_all (\<lambda>kv. acyclic (fst kv) \<and> acyclic (snd kv)) kvs \<Longrightarrow>
   list_all (\<lambda>kv. key_fits py (fst kv) \<and> within_limits py lvl (snd kv)) kvs \<Longrightarrow>
    (\<exists>chunks. json_encode_items py dflt ind lvl kvs = Inr chunks)
    \<or> (\<exists>m. json_encode_items py dflt ind lvl kvs = Inl (TypeError m))"
proof (induction py dflt ind lvl v and py dflt ind lvl vs and py dflt ind lvl kvs
    rule: json_encode_json_encode_list_json_encode_items.induct)
  case (3 py dflt ind lvl i)
  then show ?case using int_repr_fits by auto
next
  case (12 py dflt ind lvl kv kvs)
  note ih = "12.IH" and pr = "12.prems"
  from pr have k: "key_fits py (fst kv)" by simp
  from json_key_fits [OF k] show ?case
  proof
    assume "\<exists>m. json_key py (fst kv) = Inl (TypeError m)"
    then show ?thesis by auto
  next
    assume "\<exists>text. json_key py (fst kv) = Inr text"
    then obtain key where t: "json_key py (fst kv) = Inr key" by blast
    from ih(1) [OF t] pr
    have v: "(\<exists>text. json_encode py dflt ind lvl (snd kv) = Inr text)
      \<or> (\<exists>m. json_encode py dflt ind lvl (snd kv) = Inl (TypeError m))" by simp
    then show ?thesis
    proof
      assume "\<exists>m. json_encode py dflt ind lvl (snd kv) = Inl (TypeError m)"
      with t show ?thesis by auto
    next
      assume "\<exists>text. json_encode py dflt ind lvl (snd kv) = Inr text"
      then obtain chunk where c: "json_encode py dflt ind lvl (snd kv) = Inr chunk" by blast
      from ih(2) [OF t c] pr t c show ?thesis by (auto split: sum.splits)
    qed
  qed
qed (auto split: sum.splits)

lemma nat_digits_power10: "length (nat_digits (10 ^ n)) = Suc n"
proof (induction n)
  case 0
  show ?case by (simp add: nat_digits.simps)
next
  case (Suc n)
  have "(10::nat) \<le> 10 ^ Suc n" by simp
  then have "nat_digits (10 ^ Suc n) = nat_digits (10 ^ Suc n div 10) @ [48 + 10 ^ Suc n mod 10]"
    by (subst nat_digits.simps) simp
  with Suc show ?case by simp
qed

lemma int_repr_power10:
  assumes "int_max_str_digits py \<noteq> 0" and "int_max_str_digits py \<le> n"
  shows "int_repr py (10 ^ n) = Inl (ValueError (ascii ''Exceeds the limit (''
    @ nat_digits (int_max_str_digits py)
    @ ascii '' digits) for integer string conversion; use sys.set_int_max_str_digits() to increase the limit''))"
proof -
  have "nat \<bar>(10::int) ^ n\<bar> = 10 ^ n"
    by (simp add: nat_power_eq)
  then have "length (nat_digits (nat \<bar>(10::int) ^ n\<bar>)) = Suc n"
    by (simp only: nat_digits_power10)
  with assms show ?thesis
    by (simp only: int_repr_def Let_def) simp
qed

lemma int_repr_ten_to_4300:
  "int_repr cpython ten_to_4300 = Inl (ValueError (ascii ''Exceeds the limit ('' @ ascii ''4300''
    @ ascii '' digits) for integer string conversion; use sys.set_int_max_str_digits() to increase the limit''))"
proof -
  have d: "nat_digits 4300 = ascii ''4300''" by code_simp
  have l: "int_max_str_digits cpython = 4300" by (simp add: cpython_def)
  have "int_repr cpython (10 ^ 4300) = Inl (ValueError (ascii ''Exceeds the limit (''
    @ nat_digits (int_max_str_digits cpython)
    @ ascii '' digits) for integer string conversion; use sys.set_int_max_str_digits() to increase the limit''))"
    by (rule int_repr_power10) (simp_all add: l)
  then show ?thesis
    by (simp only: l d ten_to_4300_def)
qed

lemma format_response_examples:
  "json_dumps cpython True (Some 2) (PList [PInt 1, PStr (ascii ''a'')])
    = Inr (ascii ''['' @ [10] @ ascii ''  1,'' @ [10] @ ascii ''  '' @ [34] @ ascii ''a'' @ [34, 10] @ ascii '']'')"
  "json_dumps cpython True (Some 2)
     (PDict [(PObj 7 (ascii ''datetime'') (ascii ''2024-07-27''), PInt 1)])
    = Inl (TypeError (ascii ''keys must be str, int, float, bool or None, not datetime''))"
  "py_encode_basestring_ascii (ascii ''keys must be str, int, float, bool or None, not datetime'')
    = [34] @ ascii ''keys must be str, int, float, bool or None, not datetime'' @ [34]"
  "py_str cpython (PInt 42) = Inr (ascii ''42'')"
  "py_encode_basestring_ascii (ascii ''42'') = [34] @ ascii ''42'' @ [34]"
  by code_simp+

lemma json_dumps_ten_to_4300:
  "json_dumps cpython True (Some 2) (PList [PInt ten_to_4300])
    = Inl (ValueError (ascii ''Exceeds the limit ('' @ ascii ''4300''
    @ ascii '' digits) for integer string conversion; use sys.set_int_max_str_digits() to increase the limit''))"
  by (simp add: json_dumps_def int_repr_ten_to_4300)

subsection \<open>The unavailable session\<close>

text \<open>
  C3, as stated, fails for the aggregator: with no client it raises \<open>ConnectionError\<close>
  to its caller, and returns no payload.
\<close>

theorem aggregator_raises_when_unavailable:
  "fst (get_all_tasks_from_ticktick (\<lambda>ids. ids) None)
     = Inl (Exception (ConnectionError (ascii ''TickTick client not initialized.'')))
   \<and> \<not> (\<exists>payload. fst (get_all_tasks_from_ticktick (\<lambda>ids. ids) None) = Inr payload)"
  by (simp add: get_all_tasks_from_ticktick_def)

text \<open>
  C3, amended. With no client, the wrapper of \<open>require_client\<close> returns the JSON text of
  the object \<open>{"error": "TickTick client not initialized."}\<close> and does not call the
  wrapped function: its only effects are two log records. The aggregator, with no
  client, raises \<open>ConnectionError\<close> with the message \<open>TickTick client not initialized.\<close>
  at once: its only effect is one log record, and it fetches nothing.
\<close>

theorem client_not_initialized:
  "require_client py func None args =
     (Inr (PStr (ascii ''{'' @ [10] @ ascii ''  '' @ [34] @ ascii ''error'' @ [34] @ ascii '': ''
        @ [34] @ ascii ''TickTick client not initialized.'' @ [34, 10] @ ascii ''}'')),
      [Logging INFO (ascii ''TickTick client: {}'') [FClient None],
       Logging ERROR (ascii ''TickTick client accessed before initialization in tool function.'') []])
   \<and> get_all_tasks_from_ticktick set_order None =
     (Inl (Exception (ConnectionError (ascii ''TickTick client not initialized.''))),
      [Logging ERROR (ascii
         ''_get_all_tasks_from_ticktick called when client is not initialized.'') []])"
  by (simp add: require_client_def format_response_def json_dumps_not_initialized
      get_all_tasks_from_ticktick_def)

theorem client_not_initialized_witness:
  "fst (require_client cpython
      (\<lambda>args. (Inr (PStr (ascii ''[]'')), [Get_from_project (PStr (ascii ''P1''))])) None ())
    = Inr (PStr (ascii ''{'' @ [10] @ ascii ''  '' @ [34] @ ascii ''error'' @ [34] @ ascii '': ''
        @ [34] @ ascii ''TickTick client not initialized.'' @ [34, 10] @ ascii ''}''))
   \<and> filter is_io (snd (require_client cpython
        (\<lambda>args. (Inr (PStr (ascii ''[]'')), [Get_from_project (PStr (ascii ''P1''))])) None ())) = []
   \<and> fst (get_all_tasks_from_ticktick (\<lambda>ids. rev ids) None)
    = Inl (Exception (ConnectionError (ascii ''TickTick client not initialized.'')))"
  using client_not_initialized [of cpython
      "\<lambda>args. (Inr (PStr (ascii ''[]'')), [Get_from_project (PStr (ascii ''P1''))])" "()" "\<lambda>ids. rev ids"]
  by simp

subsection \<open>The project identifiers\<close>

lemma set_add_Inr:
  assumes "set_add s v = Inr s'" and "distinct (map py_key s)"
  shows "py_hashable v \<and> distinct (map py_key s')
    \<and> set (map py_key s') = insert (py_key v) (set (map py_key s))
    \<and> set s' \<subseteq> insert v (set s)"
  using assms by (auto simp: set_add_def split: if_splits)

lemma set_add_hashable: "py_hashable v \<Longrightarrow> \<exists>s'. set_add s v = Inr s'"
  by (simp add: set_add_def)

lemma id_comprehension_Inr:
  assumes "id_comprehension ps acc = Inr ids" and "distinct (map py_key acc)"
  shows "distinct (map py_key ids)
    \<and> set (map py_key ids) = set (map py_key acc) \<union> set (map py_key (snapshot_identifiers ps))
    \<and> set ids \<subseteq> set acc \<union> set (snapshot_identifiers ps)"
  using assms
proof (induction ps arbitrary: acc)
  case Nil
  then show ?case by (simp add: snapshot_identifiers_def)
next
  case (Cons p ps)
  from Cons.prems(1) obtain kvs where p: "p = PDict kvs"
    by (cases p) auto
  show ?case
  proof (cases "map_of kvs (PStr (ascii ''id''))")
    case None
    with Cons p show ?thesis by (simp add: snapshot_identifiers_def)
  next
    case (Some v)
    show ?thesis
    proof (cases "py_truthy v")
      case False
      with Cons p Some show ?thesis by (simp add: snapshot_identifiers_def)
    next
      case True
      with Cons.prems(1) p Some obtain acc' where a: "set_add acc v = Inr acc'"
        and r: "id_comprehension ps acc' = Inr ids"
        by (auto split: sum.splits)
      from set_add_Inr [OF a Cons.prems(2)] Cons.IH [OF r] p Some True
      show ?thesis by (auto simp: snapshot_identifiers_def)
    qed
  qed
qed

lemma id_comprehension_well_formed:
  "list_all well_formed_entry ps \<Longrightarrow> \<exists>ids. id_comprehension ps acc = Inr ids"
proof (induction ps arbitrary: acc)
  case Nil
  then show ?case by simp
next
  case (Cons p ps)
  then obtain kvs where p: "p = PDict kvs" by (cases p) auto
  show ?case
  proof (cases "map_of kvs (PStr (ascii ''id''))")
    case None
    with Cons p show ?thesis by simp
  next
    case (Some v)
    with Cons.prems p have "py_hashable v" by simp
    then obtain acc' where "set_add acc v = Inr acc'"
      using set_add_hashable by blast
    with Cons p Some show ?thesis by simp
  qed
qed

lemma add_inbox_Inr:
  assumes "add_inbox c ids = (Inr ids', evs)" and "distinct (map py_key ids)"
  shows "distinct (map py_key ids')
    \<and> set (map py_key ids') = set (map py_key ids) \<union> set (map py_key (default_identifier c))
    \<and> set ids' \<subseteq> set ids \<union> set (default_identifier c)"
proof (cases "inbox_id c")
  case (Inl r)
  with assms show ?thesis
    by (cases r) (auto simp: add_inbox_def add_inbox_except_def default_identifier_def)
next
  case (Inr v)
  show ?thesis
  proof (cases "py_truthy v \<and> py_hashable v")
    case True
    then obtain s' where s: "set_add ids v = Inr s'"
      using set_add_hashable by blast
    with assms Inr True have "ids' = s'" by (simp add: add_inbox_def)
    with set_add_Inr [OF s assms(2)] Inr True show ?thesis
      by (auto simp: default_identifier_def)
  next
    case False
    with assms Inr show ?thesis
      by (auto simp: add_inbox_def add_inbox_except_def default_identifier_def set_add_def
          split: if_splits)
  qed
qed

lemma add_inbox_returns:
  "(\<exists>b. inbox_id c = Inl (BaseException b)) \<or> (\<exists>ids' evs. add_inbox c ids = (Inr ids', evs))"
proof (cases "inbox_id c")
  case (Inl r)
  then show ?thesis by (cases r) (auto simp: add_inbox_def add_inbox_except_def)
next
  case (Inr v)
  then show ?thesis
    by (cases "set_add ids v") (auto simp: add_inbox_def add_inbox_except_def)
qed

lemma add_inbox_empty:
  assumes "\<forall>b. inbox_id c \<noteq> Inl (BaseException b)"
  shows "fst (add_inbox c []) = Inr (default_identifier c)"
proof (cases "inbox_id c")
  case (Inl r)
  with assms show ?thesis
    by (cases r) (auto simp: add_inbox_def add_inbox_except_def default_identifier_def)
next
  case (Inr v)
  then show ?thesis
    by (auto simp: add_inbox_def add_inbox_except_def default_identifier_def set_add_def)
qed

lemma fetched_append: "fetched (xs @ ys) = fetched xs @ fetched ys"
  by (induction xs rule: fetched.induct) auto

lemma fetch_loop_fetched_subset:
  "set (fetched (snd (fetch_loop c pids all_tasks))) \<subseteq> set pids"
proof (induction pids arbitrary: all_tasks)
  case Nil
  then show ?case by simp
next
  case (Cons p pids)
  show ?case
  proof (cases "task_get_from_project c p")
    case (Inl r)
    with Cons.IH [of all_tasks] show ?thesis
      by (cases r) (auto simp: case_prod_beta)
  next
    case (Inr v)
    with Cons.IH [of all_tasks] Cons.IH [of "all_tasks @ [v]"] show ?thesis
      using Cons.IH by (cases v) (auto simp: case_prod_beta)
  qed
qed

lemma fetched_project_ids: "fetched (snd (project_ids c)) = []"
proof -
  have a: "fetched (snd (add_inbox c ids)) = []" for ids
    by (auto simp: add_inbox_def add_inbox_except_def split: sum.splits raised.splits)
  have p: "fetched (snd (projects_state c)) = []"
    by (auto simp: projects_state_def projects_state_except_def split: sum.splits raised.splits)
  show ?thesis
    using a p
    by (auto simp: project_ids_def fetched_append case_prod_beta split: sum.splits prod.splits)
qed

lemma snapshot_identifiers_truthy: "list_all py_truthy (snapshot_identifiers ps)"
proof -
  have "list_all py_truthy (entry_identifier p)" for p
    by (cases p) (auto split: option.splits)
  then show ?thesis
    by (induction ps) (auto simp: snapshot_identifiers_def)
qed

lemma default_identifier_truthy: "list_all py_truthy (default_identifier c)"
  by (simp add: default_identifier_def split: sum.splits)

lemma project_ids_truthy_aux:
  assumes "project_ids c = (Inr ids, evs)"
  shows "list_all py_truthy ids"
proof -
  from assms obtain ps ids0 evs1 where
    c: "id_comprehension ps [] = Inr ids0" and a: "add_inbox c ids0 = (Inr ids, evs1)"
    by (auto simp: project_ids_def split: prod.splits sum.splits)
  from id_comprehension_Inr [OF c] have d: "distinct (map py_key ids0)"
    and s: "set ids0 \<subseteq> set (snapshot_identifiers ps)" by simp_all
  from add_inbox_Inr [OF a d] s
  have "set ids \<subseteq> set (snapshot_identifiers ps) \<union> set (default_identifier c)" by auto
  with snapshot_identifiers_truthy [of ps] default_identifier_truthy [of c]
  show ?thesis by (auto simp: list_all_iff)
qed

lemma project_ids_examples:
  "project_ids (client_with (Inr state_P1_P2) (Inr (PStr (ascii ''INBOX''))))
    = (Inr [PStr (ascii ''P1''), PStr (ascii ''P2''), PStr (ascii ''INBOX'')], [])"
  "project_ids (client_with (Inr state_P1_P2) (Inr (PStr (ascii ''P1''))))
    = (Inr [PStr (ascii ''P1''), PStr (ascii ''P2'')], [])"
  "project_ids (client_with (Inr state_missing_ids) (Inr (PStr [])))
    = (Inr [PStr (ascii ''P1'')], [])"
  by (simp_all add: project_ids_def projects_state_def client_with_def state_P1_P2_def
      state_missing_ids_def add_inbox_def set_add_def)

text \<open>
  C9. Every identifier of \<open>project_ids\<close> is truthy; and, the loop visiting the elements
  of the set, every identifier \<open>_get_all_tasks_from_ticktick\<close> fetches from is truthy.
\<close>

theorem fetched_identifiers_truthy:
  "(project_ids c = (Inr ids, evs) \<longrightarrow> list_all py_truthy ids)
   \<and> ((\<forall>xs. set (set_order xs) = set xs)
     \<longrightarrow> list_all py_truthy (fetched (snd (get_all_tasks_from_ticktick set_order ticktick_client))))"
proof (intro conjI impI)
  assume "project_ids c = (Inr ids, evs)"
  then show "list_all py_truthy ids" by (rule project_ids_truthy_aux)
next
  assume o: "\<forall>xs. set (set_order xs) = set xs"
  show "list_all py_truthy (fetched (snd (get_all_tasks_from_ticktick set_order ticktick_client)))"
  proof (cases ticktick_client)
    case None
    then show ?thesis by (simp add: get_all_tasks_from_ticktick_def)
  next
    case (Some cl)
    obtain r evs0 where p: "project_ids cl = (r, evs0)"
      by (cases "project_ids cl") auto
    with fetched_project_ids [of cl] have f0: "fetched evs0 = []" by simp
    show ?thesis
    proof (cases r)
      case (Inl x)
      with Some p f0 show ?thesis by (simp add: get_all_tasks_from_ticktick_def)
    next
      case (Inr ids')
      with p project_ids_truthy_aux have t: "list_all py_truthy ids'" by blast
      obtain r' evs' where l: "fetch_loop cl (set_order ids') [] = (r', evs')"
        by (cases "fetch_loop cl (set_order ids') []") auto
      with fetch_loop_fetched_subset [of cl "set_order ids'" "[]"] o
      have "set (fetched evs') \<subseteq> set ids'" by simp
      with t have "list_all py_truthy (fetched evs')" by (auto simp: list_all_iff)
      with Some p Inr l f0 show ?thesis
        by (cases r') (simp_all add: get_all_tasks_from_ticktick_def Let_def fetched_append)
    qed
  qed
qed

theorem fetched_identifiers_truthy_witness:
  "fst (project_ids (client_with (Inr state_missing_ids) (Inr (PStr [])))) = Inr [PStr (ascii ''P1'')]
   \<and> fetched (snd (get_all_tasks_from_ticktick (\<lambda>ids. ids)
        (Some (client_with (Inr state_missing_ids) (Inr (PStr [])))))) = [PStr (ascii ''P1'')]
   \<and> list_all py_truthy (fetched (snd (get_all_tasks_from_ticktick (\<lambda>ids. ids)
        (Some (client_with (Inr state_missing_ids) (Inr (PStr [])))))))"
  using fetched_identifiers_truthy [of "client_with (Inr state_missing_ids) (Inr (PStr []))"
      "[PStr (ascii ''P1'')]" "[]" "\<lambda>ids. ids" "Some (client_with (Inr state_missing_ids) (Inr (PStr [])))"]
    project_ids_examples(3)
  by (simp add: get_all_tasks_from_ticktick_def client_with_def)

subsection \<open>The aggregation loop\<close>


lemma fetch_loop_fetched:
  "no_signal c pids \<Longrightarrow> fetched (snd (fetch_loop c pids all_tasks)) = pids"
proof (induction pids arbitrary: all_tasks)
  case Nil
  then show ?case by simp
next
  case (Cons p pids)
  then have ns: "no_signal c pids" by (simp add: no_signal_def)
  note ih = Cons.IH [OF ns]
  show ?case
  proof (cases "task_get_from_project c p")
    case (Inl r)
    with Cons.prems obtain e where "r = Exception e"
      by (cases r) (auto simp: no_signal_def)
    with Inl ih [of all_tasks] show ?thesis
      by (simp add: case_prod_beta)
  next
    case (Inr v)
    with ih [of all_tasks] ih [of "all_tasks @ [v]"] show ?thesis
      using ih by (cases v) (auto simp: case_prod_beta)
  qed
qed






subsection \<open>The response formatter\<close>

text \<open>
  C10, as stated, fails: \<open>format_response\<close> does not always return text. A list that
  contains itself makes \<open>json.dumps\<close> raise \<open>ValueError\<close>, which line 17 does not catch
  (it names \<open>TypeError\<close> only), so the error leaves the function.
\<close>

theorem format_response_cycle:
  "fst (format_response cpython (PList [PCycle]))
    = Inl (Exception (ValueError (ascii ''Circular reference detected'')))"
  by (simp add: format_response_def json_dumps_def cpython_def)

text \<open>
  C10, amended. What \<open>format_response\<close> does follows from what \<open>json.dumps\<close> does with the
  value. For a list or a dictionary: the encoder's text is returned and nothing is
  logged; on a \<open>TypeError\<close> the error object with the error's message is returned and one
  record is logged at level ERROR, unless \<open>str\<close> of the value raises while that record is
  built, and then that error leaves the function; any other error of the encoder leaves
  the function. \<open>None\<close> gives \<open>null\<close>. A value of any other type gives the result object
  holding \<open>str\<close> of the value, after one record at level WARNING, unless \<open>str\<close> of the
  value raises, and then that error leaves the function. So text is returned for every
  value without a cycle that is within the limits of the interpreter (the digit limit
  of integer conversion, the depth the encoder can reach) and whose \<open>repr\<close> does not
  raise.
\<close>

theorem format_response_outcomes:
  "((isinstance_dict result \<or> isinstance_list result)
      \<and> json_dumps py True (Some 2) result = Inr text
    \<longrightarrow> format_response py result = (Inr text, []))
   \<and> ((isinstance_dict result \<or> isinstance_list result)
      \<and> json_dumps py True (Some 2) result = Inl (TypeError m) \<and> repr_raises py result = None
    \<longrightarrow> format_response py result =
        (Inr (ascii ''{'' @ [34] @ ascii ''error'' @ [34] @ ascii '': '' @ [34]
           @ ascii ''Failed to serialize response'' @ [34] @ ascii '', '' @ [34]
           @ ascii ''details'' @ [34] @ ascii '': '' @ py_encode_basestring_ascii m @ ascii ''}''),
         [Logging ERROR (ascii ''Failed to serialize response object: {} - Object: {}'')
            [FExc (TypeError m), FVal result]]))
   \<and> ((isinstance_dict result \<or> isinstance_list result)
      \<and> json_dumps py True (Some 2) result = Inl (TypeError m) \<and> repr_raises py result = Some e'
    \<longrightarrow> format_response py result = (Inl (Exception e'), []))
   \<and> ((isinstance_dict result \<or> isinstance_list result)
      \<and> json_dumps py True (Some 2) result = Inl e \<and> (\<forall>m. e \<noteq> TypeError m)
    \<longrightarrow> format_response py result = (Inl (Exception e), []))
   \<and> (result = PNone \<longrightarrow> format_response py result = (Inr (ascii ''null''), []))
   \<and> (\<not> isinstance_dict result \<and> \<not> isinstance_list result \<and> result \<noteq> PNone
      \<and> py_str py result = Inr shown
    \<longrightarrow> format_response py result =
        (Inr (ascii ''{'' @ [34] @ ascii ''result'' @ [34] @ ascii '': ''
           @ py_encode_basestring_ascii shown @ ascii ''}''),
         [Logging WARNING (ascii ''Formatting unexpected type: {} - Value: {}'')
            [FType result, FVal result]]))
   \<and> (\<not> isinstance_dict result \<and> \<not> isinstance_list result \<and> result \<noteq> PNone
      \<and> py_str py result = Inl e'
    \<longrightarrow> format_response py result = (Inl (Exception e'), []))
   \<and> (acyclic result \<and> within_limits py 0 result \<and> repr_raises py result = None
    \<longrightarrow> (\<exists>text. fst (format_response py result) = Inr text))"
proof (intro conjI impI)
  assume a: "acyclic result \<and> within_limits py 0 result \<and> repr_raises py result = None"
  show "\<exists>text. fst (format_response py result) = Inr text"
  proof (cases "isinstance_dict result \<or> isinstance_list result")
    case True
    from a json_encode_within_limits(1) [of result py 0 True "Some 2"]
    have "(\<exists>text. json_dumps py True (Some 2) result = Inr text)
      \<or> (\<exists>m. json_dumps py True (Some 2) result = Inl (TypeError m))"
      by (simp add: json_dumps_def)
    with True a show ?thesis
      by (auto simp: format_response_def json_dumps_error_object)
  next
    case False
    with a have "\<exists>shown. py_str py result = Inr shown"
      using int_repr_fits by (cases result) auto
    with False show ?thesis
      by (auto simp: format_response_def json_dumps_result_object json_dumps_None)
  qed
next
  assume "(isinstance_dict result \<or> isinstance_list result)
      \<and> json_dumps py True (Some 2) result = Inl e \<and> (\<forall>m. e \<noteq> TypeError m)"
  then show "format_response py result = (Inl (Exception e), [])"
    by (cases e) (auto simp: format_response_def)
qed (auto simp: format_response_def json_dumps_error_object json_dumps_result_object
      json_dumps_None)

theorem format_response_outcomes_witness:
  "format_response cpython (PList [PInt 1, PStr (ascii ''a'')])
    = (Inr (ascii ''['' @ [10] @ ascii ''  1,'' @ [10] @ ascii ''  '' @ [34] @ ascii ''a'' @ [34, 10]
        @ ascii '']''), [])
   \<and> fst (format_response cpython
        (PDict [(PObj 7 (ascii ''datetime'') (ascii ''2024-07-27''), PInt 1)]))
    = Inr (ascii ''{'' @ [34] @ ascii ''error'' @ [34] @ ascii '': '' @ [34]
        @ ascii ''Failed to serialize response'' @ [34] @ ascii '', '' @ [34] @ ascii ''details''
        @ [34] @ ascii '': '' @ [34]
        @ ascii ''keys must be str, int, float, bool or None, not datetime'' @ [34] @ ascii ''}'')
   \<and> format_response cpython (PList [PInt ten_to_4300])
    = (Inl (Exception (ValueError (ascii ''Exceeds the limit ('' @ ascii ''4300''
        @ ascii '' digits) for integer string conversion; use sys.set_int_max_str_digits() to increase the limit''))), [])
   \<and> format_response cpython PNone = (Inr (ascii ''null''), [])
   \<and> fst (format_response cpython (PInt 42))
    = Inr (ascii ''{'' @ [34] @ ascii ''result'' @ [34] @ ascii '': '' @ [34] @ ascii ''42'' @ [34]
        @ ascii ''}'')"
proof -
  have r: "repr_raises cpython v = None" for v by (simp add: cpython_def)
  note t = format_response_outcomes [where py = cpython]
  from t [where result = "PList [PInt 1, PStr (ascii ''a'')]"] format_response_examples(1)
  have 1: "format_response cpython (PList [PInt 1, PStr (ascii ''a'')])
    = (Inr (ascii ''['' @ [10] @ ascii ''  1,'' @ [10] @ ascii ''  '' @ [34] @ ascii ''a'' @ [34, 10]
        @ ascii '']''), [])" by simp
  from t [where result = "PDict [(PObj 7 (ascii ''datetime'') (ascii ''2024-07-27''), PInt 1)]"
      and m = "ascii ''keys must be str, int, float, bool or None, not datetime''"]
    format_response_examples(2,3) r
  have 2: "fst (format_response cpython
        (PDict [(PObj 7 (ascii ''datetime'') (ascii ''2024-07-27''), PInt 1)]))
    = Inr (ascii ''{'' @ [34] @ ascii ''error'' @ [34] @ ascii '': '' @ [34]
        @ ascii ''Failed to serialize response'' @ [34] @ ascii '', '' @ [34] @ ascii ''details''
        @ [34] @ ascii '': '' @ [34]
        @ ascii ''keys must be str, int, float, bool or None, not datetime'' @ [34] @ ascii ''}'')"
    by simp
  from t [where result = "PList [PInt ten_to_4300]" and e = "ValueError (ascii ''Exceeds the limit ('' @ ascii ''4300''
        @ ascii '' digits) for integer string conversion; use sys.set_int_max_str_digits() to increase the limit'')"]
    json_dumps_ten_to_4300
  have 3: "format_response cpython (PList [PInt ten_to_4300])
    = (Inl (Exception (ValueError (ascii ''Exceeds the limit ('' @ ascii ''4300''
        @ ascii '' digits) for integer string conversion; use sys.set_int_max_str_digits() to increase the limit''))), [])"
    by simp
  from t [where result = PNone] have 4: "format_response cpython PNone = (Inr (ascii ''null''), [])" by simp
  from t [where result = "PInt 42" and shown = "ascii ''42''"] format_response_examples(4,5)
  have 5: "fst (format_response cpython (PInt 42))
    = Inr (ascii ''{'' @ [34] @ ascii ''result'' @ [34] @ ascii '': '' @ [34] @ ascii ''42'' @ [34]
        @ ascii ''}'')" by simp
  from 1 2 3 4 5 show ?thesis by simp
qed

end
